theory Spec2Isabelle
  imports Main "HOL-Library.Sublist"
begin

section \<open>JavaScript values as the chat widget sees them\<close>

text \<open>
  \<^verbatim>\<open>web/widget.js\<close> handles values that come out of \<^verbatim>\<open>res.json()\<close>: any JSON
  document. A string is a list of code units (Latin-1 here, \<^typ>\<open>char\<close> being eight
  bits wide). A number is kept as its \<^verbatim>\<open>Number::toString\<close> rendering, which is all the
  widget ever observes of a number (it is only coerced to a string, tested for truthiness
  and serialised). An object is the list of its own properties, in the order they are enumerated.
  \<open>Undefined\<close> is the value of a property that is not there.
\<close>

datatype jsval =
    Undefined
  | Null
  | Bool bool
  | Num string
  | Str string
  | Arr "jsval list"
  | Obj "(string \<times> jsval) list"

text \<open>\<^verbatim>\<open>Array.prototype.join\<close> with separator \<open>sep\<close>, on elements already rendered.\<close>

fun join :: "string \<Rightarrow> string list \<Rightarrow> string" where
  "join sep [] = []"
| "join sep [x] = x"
| "join sep (x # y # ys) = x @ sep @ join sep (y # ys)"

text \<open>
  Results computed from left to right, each a value or a throw: the first throw, or all
  the values.
\<close>

fun all_or_first_throw :: "('e + 'a) list \<Rightarrow> 'e + 'a list" where
  "all_or_first_throw [] = Inr []"
| "all_or_first_throw (Inl e # rs) = Inl e"
| "all_or_first_throw (Inr x # rs) =
     (case all_or_first_throw rs of Inl e \<Rightarrow> Inl e | Inr xs \<Rightarrow> Inr (x # xs))"

text \<open>
  The coercion of a value to a string, as applied by string concatenation, by
  \<^verbatim>\<open>new Error(x)\<close> and by \<^verbatim>\<open>localStorage.setItem\<close>: the string (\<open>Inr\<close>), or the
  message of the TypeError it throws (\<open>Inl\<close>, in V8's wording). An array joins its
  elements with commas, rendering \<^verbatim>\<open>null\<close> and \<^verbatim>\<open>undefined\<close> elements as the empty
  string. An object is coerced by its \<^verbatim>\<open>toString\<close> method, then by \<^verbatim>\<open>valueOf\<close> (or in
  the other order, for concatenation): an own property \<^verbatim>\<open>toString\<close> of a JSON document
  is never a function and hides \<^verbatim>\<open>Object.prototype.toString\<close>, and \<^verbatim>\<open>valueOf\<close>, own or
  inherited, gives no primitive value, so the coercion throws; without such a property
  the result is \<^verbatim>\<open>[object Object]\<close>.
\<close>

fun ToString :: "jsval \<Rightarrow> string + string" where
  "ToString Undefined = Inr ''undefined''"
| "ToString Null = Inr ''null''"
| "ToString (Bool b) = Inr (if b then ''true'' else ''false'')"
| "ToString (Num r) = Inr r"
| "ToString (Str s) = Inr s"
| "ToString (Arr xs) =
     (case all_or_first_throw
             (map (\<lambda>x. if x = Undefined \<or> x = Null then Inr [] else ToString x) xs) of
        Inl e \<Rightarrow> Inl e
      | Inr ss \<Rightarrow> Inr (join '','' ss))"
| "ToString (Obj kvs) =
     (case map_of kvs ''toString'' of
        Some f \<Rightarrow> Inl ''Cannot convert object to primitive value''
      | None \<Rightarrow> Inr ''[object Object]'')"

text \<open>
  Truthiness, as tested by \<^verbatim>\<open>||\<close>, \<^verbatim>\<open>!\<close> and \<^verbatim>\<open>? :\<close>. Both zeros render as
  \<^verbatim>\<open>0\<close>; every array and object is truthy.
\<close>

fun truthy :: "jsval \<Rightarrow> bool" where
  "truthy Undefined = False"
| "truthy Null = False"
| "truthy (Bool b) = b"
| "truthy (Num r) = (r \<noteq> ''0'' \<and> r \<noteq> ''NaN'')"
| "truthy (Str s) = (s \<noteq> [])"
| "truthy (Arr xs) = True"
| "truthy (Obj kvs) = True"

text \<open>
  Reading one of the properties \<^verbatim>\<open>detail\<close>, \<^verbatim>\<open>session_id\<close>, \<^verbatim>\<open>reply\<close>, which no
  prototype defines: on \<^verbatim>\<open>null\<close> or \<^verbatim>\<open>undefined\<close> the read throws a TypeError
  (the result is then its message, in V8's wording), on an object it gives the own
  property or \<^verbatim>\<open>undefined\<close>, on any other value \<^verbatim>\<open>undefined\<close>.
\<close>

fun get_prop :: "jsval \<Rightarrow> string \<Rightarrow> string + jsval" where
  "get_prop Undefined k =
     Inl (''Cannot read properties of undefined (reading '' @ [CHR 0x27] @ k @ [CHR 0x27] @ '')'')"
| "get_prop Null k =
     Inl (''Cannot read properties of null (reading '' @ [CHR 0x27] @ k @ [CHR 0x27] @ '')'')"
| "get_prop (Obj kvs) k = Inr (case map_of kvs k of None \<Rightarrow> Undefined | Some v \<Rightarrow> v)"
| "get_prop v k = Inr Undefined"

subsection \<open>\<^verbatim>\<open>JSON.stringify\<close>\<close>

definition hex_digit :: "nat \<Rightarrow> char" where
  "hex_digit n = ''0123456789abcdef'' ! (n mod 16)"

text \<open>\<^verbatim>\<open>QuoteJSONString\<close>: the escapes of one code unit, then of a string.\<close>

definition QuoteJSONChar :: "char \<Rightarrow> string" where
  "QuoteJSONChar c =
     (if c = CHR 0x08 then [CHR 0x5C, CHR ''b'']
      else if c = CHR 0x09 then [CHR 0x5C, CHR ''t'']
      else if c = CHR 0x0A then [CHR 0x5C, CHR ''n'']
      else if c = CHR 0x0C then [CHR 0x5C, CHR ''f'']
      else if c = CHR 0x0D then [CHR 0x5C, CHR ''r'']
      else if c = CHR 0x22 then [CHR 0x5C, CHR 0x22]
      else if c = CHR 0x5C then [CHR 0x5C, CHR 0x5C]
      else if of_char c < (0x20 :: nat)
        then [CHR 0x5C, CHR ''u'', CHR ''0'', CHR ''0'',
              hex_digit (of_char c div 16), hex_digit (of_char c)]
      else [c])"

definition QuoteJSONString :: "string \<Rightarrow> string" where
  "QuoteJSONString s = [CHR 0x22] @ concat (map QuoteJSONChar s) @ [CHR 0x22]"

text \<open>
  \<^verbatim>\<open>SerializeJSONProperty\<close>: \<open>None\<close> is \<^verbatim>\<open>undefined\<close>. A property whose value is
  \<^verbatim>\<open>undefined\<close> is left out of an object and written \<^verbatim>\<open>null\<close> in an array; a
  number that is not finite is written \<^verbatim>\<open>null\<close>.
\<close>

fun SerializeJSONProperty :: "jsval \<Rightarrow> string option" where
  "SerializeJSONProperty Undefined = None"
| "SerializeJSONProperty Null = Some ''null''"
| "SerializeJSONProperty (Bool b) = Some (if b then ''true'' else ''false'')"
| "SerializeJSONProperty (Num r) =
     Some (if r = ''Infinity'' \<or> r = ''-Infinity'' \<or> r = ''NaN'' then ''null'' else r)"
| "SerializeJSONProperty (Str s) = Some (QuoteJSONString s)"
| "SerializeJSONProperty (Arr xs) =
     Some (''['' @ join '','' (map (\<lambda>x. case SerializeJSONProperty x of
                                        None \<Rightarrow> ''null'' | Some t \<Rightarrow> t) xs) @ '']'')"
| "SerializeJSONProperty (Obj kvs) =
     Some (''{'' @ join '','' (concat (map (\<lambda>(k, v). case SerializeJSONProperty v of
                None \<Rightarrow> [] | Some t \<Rightarrow> [QuoteJSONString k @ '':'' @ t]) kvs)) @ ''}'')"

definition JSON_stringify :: "jsval \<Rightarrow> string option" where
  "JSON_stringify v = SerializeJSONProperty v"

text \<open>
  For stating what a serialised body says: a string is plain when every code unit of it
  is written as it is between the quotes, and \<open>unescape\<close> reads one code unit back from
  the front of an escaped text (\<open>hex_value\<close> being the value of a hexadecimal digit).
\<close>

definition plain :: "string \<Rightarrow> bool" where
  "plain s \<longleftrightarrow> (\<forall>c\<in>set s. c \<noteq> CHR 0x22 \<and> c \<noteq> CHR 0x5C \<and> (32 :: nat) \<le> of_char c)"

fun index_of :: "'a \<Rightarrow> 'a list \<Rightarrow> nat" where
  "index_of x [] = 0"
| "index_of x (y # ys) = (if x = y then 0 else Suc (index_of x ys))"

definition hex_value :: "char \<Rightarrow> nat" where
  "hex_value c = index_of c ''0123456789abcdef''"

fun unescape :: "string \<Rightarrow> (char \<times> string) option" where
  "unescape [] = None"
| "unescape (c # xs) =
     (if c \<noteq> CHR 0x5C then Some (c, xs)
      else case xs of
        [] \<Rightarrow> None
      | l # ys \<Rightarrow>
          if l = CHR ''b'' then Some (CHR 0x08, ys)
          else if l = CHR ''t'' then Some (CHR 0x09, ys)
          else if l = CHR ''n'' then Some (CHR 0x0A, ys)
          else if l = CHR ''f'' then Some (CHR 0x0C, ys)
          else if l = CHR ''r'' then Some (CHR 0x0D, ys)
          else if l = CHR ''u'' then
            (case ys of
               a # b # h # k # zs \<Rightarrow> Some (char_of (16 * hex_value h + hex_value k), zs)
             | _ \<Rightarrow> None)
          else Some (l, ys))"

subsection \<open>Strings\<close>

text \<open>
  \<^verbatim>\<open>String.prototype.trim\<close> removes white space and line terminators from both ends;
  among the Latin-1 code units these are TAB, LF, VT, FF, CR, SP and NBSP.
\<close>

definition js_whitespace :: "char \<Rightarrow> bool" where
  "js_whitespace c \<longleftrightarrow>
     c \<in> {CHR 0x09, CHR 0x0A, CHR 0x0B, CHR 0x0C, CHR 0x0D, CHR 0x20, CHR 0xA0}"

definition trim :: "string \<Rightarrow> string" where
  "trim s = rev (dropWhile js_whitespace (rev (dropWhile js_whitespace s)))"

text \<open>
  \<^verbatim>\<open>x || d\<close> where \<open>x\<close> is a string, or \<^verbatim>\<open>undefined\<close>/\<^verbatim>\<open>null\<close> (\<open>None\<close>): the empty
  string is falsy too.
\<close>

definition or_else :: "string option \<Rightarrow> string \<Rightarrow> string" where
  "or_else x d = (case x of None \<Rightarrow> d | Some s \<Rightarrow> if s = [] then d else s)"

text \<open>
  \<^verbatim>\<open>s.replace(/\/$/, "")\<close>: the pattern matches one slash at the very end of the input
  (no \<^verbatim>\<open>m\<close> flag), and the first match is replaced.
\<close>

definition strip_trailing_slash :: "string \<Rightarrow> string" where
  "strip_trailing_slash s = (if s \<noteq> [] \<and> last s = CHR ''/'' then butlast s else s)"

text \<open>
  \<^verbatim>\<open>Object.assign(target, source)\<close> on objects with string values: each property of
  the source overwrites the target's property of that name, or is added after the others.
\<close>

fun set_property :: "string \<Rightarrow> 'v \<Rightarrow> (string \<times> 'v) list \<Rightarrow> (string \<times> 'v) list" where
  "set_property k v [] = [(k, v)]"
| "set_property k v ((k', v') # ps) =
     (if k = k' then (k, v) # ps else (k', v') # set_property k v ps)"

definition Object_assign :: "(string \<times> 'v) list \<Rightarrow> (string \<times> 'v) list \<Rightarrow> (string \<times> 'v) list" where
  "Object_assign target source = fold (\<lambda>(k, v). set_property k v) source target"

section \<open>The chat widget (\<^verbatim>\<open>web/widget.js\<close>)\<close>

text \<open>
  What the page sets on \<^verbatim>\<open>window\<close> before the widget loads: each of the two settings is
  a string or is not set.
\<close>

record page =
  EMPIRELABS_CHAT_API :: "string option"
  EMPIRELABS_CHAT_KEY :: "string option"

record config =
  apiBase :: string
  apiKey :: string
  title :: string

definition default_api :: string where
  "default_api = ''http://127.0.0.1:8787''"

definition CFG :: "page \<Rightarrow> config" where
  "CFG w = \<lparr> apiBase = strip_trailing_slash (or_else (EMPIRELABS_CHAT_API w) default_api),
             apiKey = or_else (EMPIRELABS_CHAT_KEY w) [],
             title = ''Empire Labs Assistant'' \<rparr>"

text \<open>One \<^verbatim>\<open>div\<close> of the conversation, as \<^verbatim>\<open>append\<close> builds it.\<close>

record message =
  className :: string
  textContent :: string

text \<open>
  The state the widget's handlers read and write: the text box and whether it has the
  focus, the send button, the children of the conversation element \<^verbatim>\<open>body\<close>, the
  variable \<^verbatim>\<open>session_id\<close> and the page's \<^verbatim>\<open>localStorage\<close>.
\<close>

record widget =
  textBox_value :: string
  textBox_focused :: bool
  sendBtn_disabled :: bool
  body_children :: "message list"
  session_id :: jsval
  localStorage :: "string \<rightharpoonup> string"

definition storage_key :: string where
  "storage_key = ''empirelabs_chat_session''"

text \<open>
  \<^verbatim>\<open>append(role, text)\<close> for a \<open>text\<close> that is a string. The one call with another
  value, \<^verbatim>\<open>append("Bot", data.reply)\<close>, coerces the value in \<^verbatim>\<open>role + ": " + text\<close>
  before anything is added to the conversation; that coercion, which may throw, is
  written where the call is made.
\<close>

definition append :: "string \<Rightarrow> string \<Rightarrow> widget \<Rightarrow> widget" where
  "append role text st =
     st\<lparr> body_children := body_children st @
          [\<lparr> className = ''empire-msg '' @ (if role = ''You'' then ''empire-user'' else ''empire-bot''),
             textContent = role @ '': '' @ text \<rparr>] \<rparr>"

text \<open>
  The widget once its script has run: \<^verbatim>\<open>session_id\<close> is read from
  \<^verbatim>\<open>localStorage\<close> (\<^verbatim>\<open>getItem\<close> gives \<^verbatim>\<open>null\<close> for a key that is not there), and the
  conversation holds the greeting, whose text is the parameter \<open>greeting\<close>.
\<close>

definition widget_load :: "string \<Rightarrow> (string \<rightharpoonup> string) \<Rightarrow> widget" where
  "widget_load greeting ls =
     append ''Bot'' greeting
       \<lparr> textBox_value = [], textBox_focused = False, sendBtn_disabled = False,
         body_children = [], session_id = Str (or_else (ls storage_key) []),
         localStorage = ls \<rparr>"

subsection \<open>Requests and their outcomes\<close>

record request =
  url :: string
  http_method :: string
  headers :: "(string \<times> string) list"
  body :: "string option"

text \<open>
  How \<^verbatim>\<open>await res.json()\<close> ends: it throws (the body is not JSON; the string is the
  error's message) or gives the parsed document.
\<close>

datatype body_result = NotJson string | Json jsval

text \<open>
  How \<^verbatim>\<open>await fetch(...)\<close> ends: it throws (the request could not be made; the string is
  the error's message) or gives a response with a status and a body.
\<close>

datatype fetch_outcome = Rejected string | Response nat body_result

definition ok :: "nat \<Rightarrow> bool" where
  "ok status \<longleftrightarrow> 200 \<le> status \<and> status \<le> 299"

definition chat_request :: "config \<Rightarrow> widget \<Rightarrow> string \<Rightarrow> request" where
  "chat_request cfg st msg =
     \<lparr> url = apiBase cfg @ ''/api/chat'',
       http_method = ''POST'',
       headers = Object_assign [(''Content-Type'', ''application/json'')]
                   (if apiKey cfg \<noteq> [] then [(''x-api-key'', apiKey cfg)] else []),
       body = JSON_stringify (Obj [(''message'', Str msg), (''session_id'', session_id st)]) \<rparr>"

subsection \<open>\<^verbatim>\<open>send\<close>\<close>

text \<open>
  \<^verbatim>\<open>send\<close> up to its first \<^verbatim>\<open>await\<close>: nothing happens on a blank text box; otherwise
  the box is cleared, the button disabled, the message shown and the request made.
\<close>

definition send_start :: "config \<Rightarrow> widget \<Rightarrow> widget \<times> request option" where
  "send_start cfg st =
     (let msg = trim (or_else (Some (textBox_value st)) [])
      in if msg = [] then (st, None)
         else (append ''You'' msg (st\<lparr> textBox_value := [], sendBtn_disabled := True \<rparr>),
               Some (chat_request cfg st msg)))"

text \<open>
  The \<^verbatim>\<open>try\<close> block once \<^verbatim>\<open>fetch\<close> has settled. The result is the state where the
  block ends and, when it ends by a throw, the thrown error's message. \<^verbatim>\<open>new Error(x)\<close>
  coerces \<open>x\<close> to a string, and so do \<^verbatim>\<open>localStorage.setItem\<close> and the concatenation
  in \<^verbatim>\<open>append\<close>; when a coercion throws, its TypeError is what the block throws, and
  what the block has assigned before stays assigned.
\<close>

definition try_block :: "widget \<Rightarrow> fetch_outcome \<Rightarrow> widget \<times> string option" where
  "try_block st outcome =
     (case outcome of
        Rejected m \<Rightarrow> (st, Some m)
      | Response status b \<Rightarrow>
          (case b of
             NotJson m \<Rightarrow> (st, Some m)
           | Json data \<Rightarrow>
               if \<not> ok status then
                 (case get_prop data ''detail'' of
                    Inl m \<Rightarrow> (st, Some m)
                  | Inr d \<Rightarrow>
                      (case ToString (if truthy d then d else Str ''Request failed'') of
                         Inl m \<Rightarrow> (st, Some m)
                       | Inr m \<Rightarrow> (st, Some m)))
               else
                 (case get_prop data ''session_id'' of
                    Inl m \<Rightarrow> (st, Some m)
                  | Inr sid \<Rightarrow>
                      (let st1 = st\<lparr> session_id := sid \<rparr>
                       in case ToString sid of
                            Inl m \<Rightarrow> (st1, Some m)
                          | Inr stored \<Rightarrow>
                              (let st2 = st1\<lparr> localStorage := (localStorage st1)(storage_key \<mapsto> stored) \<rparr>
                               in case get_prop data ''reply'' of
                                    Inl m \<Rightarrow> (st2, Some m)
                                  | Inr reply \<Rightarrow>
                                      (case ToString reply of
                                         Inl m \<Rightarrow> (st2, Some m)
                                       | Inr shown \<Rightarrow> (append ''Bot'' shown st2, None)))))))"

text \<open>\<^verbatim>\<open>send\<close> from the moment \<^verbatim>\<open>fetch\<close> settles: \<^verbatim>\<open>try\<close>, \<^verbatim>\<open>catch\<close>, \<^verbatim>\<open>finally\<close>.\<close>

definition send_settle :: "widget \<Rightarrow> fetch_outcome \<Rightarrow> widget" where
  "send_settle st outcome =
     (let (st1, thrown) = try_block st outcome;
          st2 = (case thrown of None \<Rightarrow> st1 | Some m \<Rightarrow> append ''Error'' m st1)
      in st2\<lparr> sendBtn_disabled := False, textBox_focused := True \<rparr>)"

text \<open>
  One whole run of \<^verbatim>\<open>send\<close>, with no other handler running in between: the resulting
  state and the requests made. \<open>net\<close> is the world beyond \<^verbatim>\<open>fetch\<close>: it tells how a
  request ends.
\<close>

definition send :: "config \<Rightarrow> (request \<Rightarrow> fetch_outcome) \<Rightarrow> widget \<Rightarrow> widget \<times> request list" where
  "send cfg net st =
     (case send_start cfg st of
        (st1, None) \<Rightarrow> (st1, [])
      | (st1, Some r) \<Rightarrow> (send_settle st1 (net r), [r]))"

text \<open>
  The ways a request fails: \<^verbatim>\<open>fetch\<close> throws, the status is not 2xx, or the body is not
  JSON.
\<close>

definition failed :: "fetch_outcome \<Rightarrow> bool" where
  "failed outcome =
     (case outcome of
        Rejected m \<Rightarrow> True
      | Response status b \<Rightarrow>
          \<not> ok status \<or> (case b of NotJson m \<Rightarrow> True | Json data \<Rightarrow> False))"

text \<open>
  What happens to the widget, one event at a time: the user types a text into the box;
  \<^verbatim>\<open>send\<close> is called, by a click on the button or by Enter in the text box (the key
  handler calls \<^verbatim>\<open>send\<close> also while a request is in flight); the \<^verbatim>\<open>fetch\<close> of a
  \<^verbatim>\<open>send\<close> in flight settles, and that \<^verbatim>\<open>send\<close> runs to its end. A run keeps the
  requests made, in order. Nothing ties a settling to a request in flight, so the runs
  include every interleaving of overlapping sends that the page can show.
\<close>

datatype action = Types string | Sends | Settles fetch_outcome

fun act :: "config \<Rightarrow> widget \<times> request list \<Rightarrow> action \<Rightarrow> widget \<times> request list" where
  "act cfg (st, rs) (Types typed) = (st\<lparr> textBox_value := typed \<rparr>, rs)"
| "act cfg (st, rs) Sends =
     (case send_start cfg st of
        (st1, None) \<Rightarrow> (st1, rs)
      | (st1, Some r) \<Rightarrow> (st1, rs @ [r]))"
| "act cfg (st, rs) (Settles outcome) = (send_settle st outcome, rs)"

definition acts :: "config \<Rightarrow> widget \<Rightarrow> action list \<Rightarrow> widget \<times> request list" where
  "acts cfg st as = foldl (act cfg) (st, []) as"

section \<open>The PowerShell scripts\<close>

text \<open>
  The two launch scripts are straight-line PowerShell. A statement is one of the forms
  they use; \<^verbatim>\<open>Write-Host\<close> keeps its text only (the bytes of the script file), not its
  colour. Variables of the scripts (\<^verbatim>\<open>$Root\<close>, \<^verbatim>\<open>$Py\<close>) are written out where they
  are used.
\<close>

datatype stmt =
    SetPreference string string
  | SetStrictMode string
  | SetEnv string string
  | ThrowUnlessPath string string
  | SetLocation string
  | WriteHost string
  | Native string "string list"

text \<open>A Windows path from its components, and \<^verbatim>\<open>Join-Path\<close>.\<close>

definition win_path :: "string list \<Rightarrow> string" where
  "win_path parts = join [CHR 0x5C] parts"

definition Join_Path :: "string \<Rightarrow> string \<Rightarrow> string" where
  "Join_Path parent child = parent @ [CHR 0x5C] @ child"

definition Root :: string where
  "Root = win_path [''C:'', ''VaultSentinel'', ''EmpireLabs'', ''ChatBot'']"

definition Py :: string where
  "Py = Join_Path Root (win_path [''.venv'', ''Scripts'', ''python.exe''])"

text \<open>The script that starts the server.\<close>

definition uvicorn_args :: "string list" where
  "uvicorn_args = [''-m'', ''uvicorn'', ''server:app'', ''--host'', ''127.0.0.1'', ''--port'', ''8787'']"

definition run_script :: "stmt list" where
  "run_script =
     [ SetPreference ''ErrorActionPreference'' ''Stop'',
       SetStrictMode ''Latest'',
       SetEnv ''OLLAMA_BASE_URL'' ''http://127.0.0.1:11434'',
       SetEnv ''MODEL'' ''qwen2.5:7b-instruct'',
       SetEnv ''API_KEY'' [],
       SetEnv ''CORS_ORIGINS'' ''*'',
       SetEnv ''HOST'' ''127.0.0.1'',
       SetEnv ''PORT'' ''8787'',
       SetEnv ''CHAT_TEMP'' ''0.4'',
       SetEnv ''NUM_CTX'' ''4096'',
       SetEnv ''RAG_ENABLED'' ''1'',
       SetEnv ''RAG_DB_PATH'' (win_path [''C:'', ''VaultSentinel'', ''EmpireLabs'', ''ChatBot'', ''rag_db'']),
       SetEnv ''RAG_COLLECTION'' ''empirelabs_kb'',
       SetEnv ''EMBED_MODEL'' ''nomic-embed-text'',
       SetLocation (win_path [''C:'', ''VaultSentinel'', ''EmpireLabs'', ''ChatBot'']),
       Native (win_path [''C:'', ''VaultSentinel'', ''EmpireLabs'', ''ChatBot'', ''.venv'', ''Scripts'', ''python.exe''])
         uvicorn_args ]"

text \<open>The script that refreshes the knowledge base.\<close>

definition refresh_script :: "stmt list" where
  "refresh_script =
     [ SetPreference ''ErrorActionPreference'' ''Stop'',
       SetStrictMode ''Latest'',
       ThrowUnlessPath Py (''Missing venv python: '' @ Py),
       SetEnv ''OLLAMA_BASE_URL'' ''http://127.0.0.1:11434'',
       SetEnv ''EMBED_MODEL'' ''nomic-embed-text'',
       SetEnv ''KB_SCRAPE_BASE'' ''https://empirelabs.com.au'',
       SetEnv ''KB_SCRAPE_MAX_PAGES'' ''60'',
       SetLocation Root,
       WriteHost (''1) Scraping site -> kb'' @ [CHR 0x5C, CHR 0x5C] @ ''scraped ...''),
       Native Py [''site_scrape.py''],
       WriteHost ''2) Ingesting kb -> rag_db ...'',
       Native Py [''rag_ingest.py''],
       WriteHost ([CHR 0xE2, CHR 0x9C, CHR 0x85] @ '' KB refresh complete.'') ]"

text \<open>The environment variables a script assigns, in order, with their values.\<close>

fun env_assignments :: "stmt list \<Rightarrow> (string \<times> string) list" where
  "env_assignments [] = []"
| "env_assignments (SetEnv n v # cs) = (n, v) # env_assignments cs"
| "env_assignments (c # cs) = env_assignments cs"

subsection \<open>Running a script\<close>

text \<open>
  A native program that is started ends with an exit code; it may also fail to start.
\<close>

datatype native_outcome = Exit int | CannotStart

text \<open>
  What a run depends on: which paths exist, which directories can be entered, how each
  native program ends, and the session's value of
  \<^verbatim>\<open>$PSNativeCommandUseErrorActionPreference\<close>, which neither script sets (PowerShell's
  default is \<^verbatim>\<open>$false\<close>; before PowerShell 7.3 there is no such setting, which behaves
  as \<^verbatim>\<open>$false\<close>).
\<close>

record world =
  path_exists :: "string \<Rightarrow> bool"
  can_enter :: "string \<Rightarrow> bool"
  native :: "string \<Rightarrow> string list \<Rightarrow> native_outcome"
  PSNativeCommandUseErrorActionPreference :: bool

text \<open>
  What a run leaves behind: the text written to the host and the programs run, in order.
  A program is logged with its arguments, the assignments to environment variables the
  script has made by then, and its exit code. \<open>env\<close> holds those assignments as the
  script makes them, each variable with the value assigned last. (An assignment of the
  empty string, as the launch script makes to \<^verbatim>\<open>API_KEY\<close>, leaves the variable empty in
  PowerShell 7.5 and removes it from the environment in earlier versions; the list does
  not tell the two apart.)
\<close>

datatype event =
    Wrote string
  | Ran string "string list" "(string \<times> string) list" int

record shell =
  ErrorActionPreference :: string
  env :: "(string \<times> string) list"
  location :: "string option"
  LASTEXITCODE :: "int option"
  log :: "event list"

definition new_shell :: shell where
  "new_shell = \<lparr> ErrorActionPreference = ''Continue'', env = [], location = None,
                 LASTEXITCODE = None, log = [] \<rparr>"

text \<open>
  One statement: the shell after it and, when the statement ends the script, the error
  that does. \<^verbatim>\<open>throw\<close> always ends the script. A failing \<^verbatim>\<open>Set-Location\<close> and a
  program that cannot be started end it when \<^verbatim>\<open>$ErrorActionPreference\<close> is
  \<^verbatim>\<open>Stop\<close>, and otherwise the script goes on. A program that was started and exits
  with a code other than zero sets \<^verbatim>\<open>$LASTEXITCODE\<close>; it is an error, subject to
  \<^verbatim>\<open>$ErrorActionPreference\<close>, only when \<^verbatim>\<open>$PSNativeCommandUseErrorActionPreference\<close>
  is on.
\<close>

fun step :: "world \<Rightarrow> shell \<Rightarrow> stmt \<Rightarrow> shell \<times> string option" where
  "step w s (SetPreference n v) =
     (if n = ''ErrorActionPreference'' then s\<lparr> ErrorActionPreference := v \<rparr> else s, None)"
| "step w s (SetStrictMode v) = (s, None)"
| "step w s (SetEnv n v) = (s\<lparr> env := set_property n v (env s) \<rparr>, None)"
| "step w s (ThrowUnlessPath p msg) = (s, if path_exists w p then None else Some msg)"
| "step w s (SetLocation p) =
     (if can_enter w p then (s\<lparr> location := Some p \<rparr>, None)
      else if ErrorActionPreference s = ''Stop'' then (s, Some (''Cannot find path '' @ p))
      else (s, None))"
| "step w s (WriteHost t) = (s\<lparr> log := log s @ [Wrote t] \<rparr>, None)"
| "step w s (Native exe args) =
     (case native w exe args of
        CannotStart \<Rightarrow>
          (s, if ErrorActionPreference s = ''Stop'' then Some (''Cannot run '' @ exe) else None)
      | Exit code \<Rightarrow>
          (s\<lparr> LASTEXITCODE := Some code, log := log s @ [Ran exe args (env s) code] \<rparr>,
           if code \<noteq> 0 \<and> PSNativeCommandUseErrorActionPreference w
                \<and> ErrorActionPreference s = ''Stop''
           then Some (''Program exited with a code other than zero: '' @ exe)
           else None))"

text \<open>
  A script runs statement by statement until one ends it. The result is the shell as the
  run leaves it and the error that ended the script, if one did.
\<close>

fun exec :: "world \<Rightarrow> shell \<Rightarrow> stmt list \<Rightarrow> shell \<times> string option" where
  "exec w s [] = (s, None)"
| "exec w s (c # cs) =
     (case step w s c of
        (s', Some err) \<Rightarrow> (s', Some err)
      | (s', None) \<Rightarrow> exec w s' cs)"

definition run :: "world \<Rightarrow> stmt list \<Rightarrow> shell \<times> string option" where
  "run w script = exec w new_shell script"

text \<open>
  The address the server is told to bind to: the values that follow \<^verbatim>\<open>--host\<close> and
  \<^verbatim>\<open>--port\<close> among the arguments of the program a script runs.
\<close>

fun arg_after :: "string \<Rightarrow> string list \<Rightarrow> string option" where
  "arg_after flag (a # b # rest) = (if a = flag then Some b else arg_after flag (b # rest))"
| "arg_after flag rest = None"

text \<open>The programs a run started, in order: the arguments and the exit code of each.\<close>

fun programs_run :: "event list \<Rightarrow> (string list \<times> int) list" where
  "programs_run [] = []"
| "programs_run (Ran exe args e code # es) = (args, code) # programs_run es"
| "programs_run (Wrote t # es) = programs_run es"

text \<open>
  Two worlds: one where every path exists and every program exits with 0, and one that
  differs in \<^verbatim>\<open>site_scrape.py\<close> exiting with 1. Both have PowerShell's default for
  \<^verbatim>\<open>$PSNativeCommandUseErrorActionPreference\<close>.
\<close>

definition all_well :: world where
  "all_well =
     \<lparr> path_exists = (\<lambda>p. True), can_enter = (\<lambda>p. True),
       native = (\<lambda>exe args. Exit 0),
       PSNativeCommandUseErrorActionPreference = False \<rparr>"

definition scrape_fails :: world where
  "scrape_fails =
     \<lparr> path_exists = (\<lambda>p. True), can_enter = (\<lambda>p. True),
       native = (\<lambda>exe args. if args = [''site_scrape.py''] then Exit 1 else Exit 0),
       PSNativeCommandUseErrorActionPreference = False \<rparr>"

text \<open>
  The address a script binds the server to: the values of \<^verbatim>\<open>--host\<close> and \<^verbatim>\<open>--port\<close>
  in the one program it runs.
\<close>

definition server_bind :: "stmt list \<Rightarrow> (string \<times> string) option" where
  "server_bind script =
     (case [args. Native exe args \<leftarrow> script] of
        [args] \<Rightarrow> (case (arg_after ''--host'' args, arg_after ''--port'' args) of
                     (Some h, Some p) \<Rightarrow> Some (h, p)
                   | _ \<Rightarrow> None)
      | _ \<Rightarrow> None)"

section \<open>The chat service\<close>

text \<open>
  The service behind \<^verbatim>\<open>/api/chat\<close> (\<^verbatim>\<open>server:app\<close>, which the launch script starts) is
  not among the sources: only its client, the widget, and its launch script are. What
  follows is written from the specification's sections on the session manager, the chat
  orchestrator, the HTTP surface and the error taxonomy.
\<close>

text \<open>
  Modelled from the spec: a turn of a session, which the missing service stores (role
  \<^verbatim>\<open>user\<close> or \<^verbatim>\<open>assistant\<close>, and text; the timestamp and the idle expiry it serves are
  left out).
\<close>

record turn =
  role :: string
  content :: string

text \<open>
  Modelled from the spec: the prompt the missing orchestrator assembles (fixed system
  instructions, retrieved passages, the session's recent history, the new user message).
\<close>

record prompt =
  system_instructions :: string
  passages :: "string list"
  history :: "turn list"
  user_message :: string

text \<open>
  Modelled from the spec: what the missing service is configured with and calls out to.
  \<open>new_id\<close> generates a session identifier, given those in use; \<open>retrieve\<close> is the
  retriever (\<open>None\<close>: the embedding backend failed; an empty list: no passage above the
  threshold); \<open>language_model\<close> is the language model client (\<open>None\<close>: the call failed);
  \<open>required_key\<close> is the configured API key, empty when none is required.
\<close>

record capabilities =
  new_id :: "string list \<Rightarrow> string"
  retrieve :: "string \<Rightarrow> string list option"
  language_model :: "prompt \<Rightarrow> string option"
  instructions :: string
  top_k :: nat
  history_window :: nat
  required_key :: string

text \<open>
  Modelled from the spec: the session manager's store of the missing service, from
  session id to history.
\<close>

type_synonym sessions = "(string \<times> turn list) list"

text \<open>
  Modelled from the spec: the failures of a request to the missing service (a rejected API
  key, \<^verbatim>\<open>EmbeddingError\<close>, \<^verbatim>\<open>LanguageModelError\<close>; \<^verbatim>\<open>SessionNotFound\<close> and
  \<^verbatim>\<open>RetrievalEmpty\<close> are not errors) and its responses: a reply with a session id (2xx),
  or a failure (not 2xx, with a \<^verbatim>\<open>detail\<close>).
\<close>

datatype failure = Unauthorized | EmbeddingError | LanguageModelError

datatype response = Success string string | Failure failure

text \<open>
  Modelled from the spec: \<^verbatim>\<open>get_or_create\<close> of the missing session manager. ``If no
  session_id is supplied, or it does not exist, generate a new unique identifier and start
  empty history --- never error on an unknown id''.
\<close>

definition get_or_create :: "capabilities \<Rightarrow> sessions \<Rightarrow> string option \<Rightarrow> string \<times> turn list \<times> sessions" where
  "get_or_create caps ss sid =
     (case (case sid of None \<Rightarrow> None | Some i \<Rightarrow> map_option (\<lambda>h. (i, h)) (map_of ss i)) of
        Some (i, h) \<Rightarrow> (i, h, ss)
      | None \<Rightarrow> (let i = new_id caps (map fst ss) in (i, [], (i, []) # ss)))"

text \<open>
  Modelled from the spec: \<^verbatim>\<open>append\<close> of the missing session manager, which keeps the
  most recent turns of the history window and drops the older ones.
\<close>

definition append_turns :: "capabilities \<Rightarrow> sessions \<Rightarrow> string \<Rightarrow> turn list \<Rightarrow> sessions" where
  "append_turns caps ss i ts =
     map (\<lambda>(k, h). if k = i
                    then (k, drop (length (h @ ts) - history_window caps) (h @ ts))
                    else (k, h)) ss"

text \<open>
  Modelled from the spec: the prompt assembly of the missing orchestrator, with at most
  \<open>top_k\<close> passages (the token budget that truncates them is left out).
\<close>

definition assemble :: "capabilities \<Rightarrow> string list \<Rightarrow> turn list \<Rightarrow> string \<Rightarrow> prompt" where
  "assemble caps ps h msg =
     \<lparr> system_instructions = instructions caps, passages = take (top_k caps) ps,
       history = h, user_message = msg \<rparr>"

text \<open>
  Modelled from the spec: \<^verbatim>\<open>handle\<close> of the missing chat orchestrator. It resolves the
  session, retrieves passages (going on without any when none is found), assembles the
  prompt and calls the language model; on success it appends the user message and the
  reply to the session, and on a failure it leaves the history as it was.
\<close>

definition handle :: "capabilities \<Rightarrow> sessions \<Rightarrow> string \<Rightarrow> string option \<Rightarrow> response \<times> sessions" where
  "handle caps ss msg sid =
     (let (i, h, ss1) = get_or_create caps ss sid
      in case retrieve caps msg of
           None \<Rightarrow> (Failure EmbeddingError, ss1)
         | Some ps \<Rightarrow>
             (case language_model caps (assemble caps ps h msg) of
                None \<Rightarrow> (Failure LanguageModelError, ss1)
              | Some reply \<Rightarrow>
                  (Success reply i,
                   append_turns caps ss1 i
                     [\<lparr> role = ''user'', content = msg \<rparr>, \<lparr> role = ''assistant'', content = reply \<rparr>])))"

text \<open>
  Modelled from the spec: \<^verbatim>\<open>POST /api/chat\<close> of the missing service, which rejects a
  request whose \<^verbatim>\<open>x-api-key\<close> header is missing or wrong when a key is configured, and
  hands every other request to the orchestrator.
\<close>

definition api_chat ::
  "capabilities \<Rightarrow> sessions \<Rightarrow> string option \<Rightarrow> string \<Rightarrow> string option \<Rightarrow> response \<times> sessions" where
  "api_chat caps ss key msg sid =
     (if required_key caps \<noteq> [] \<and> key \<noteq> Some (required_key caps)
      then (Failure Unauthorized, ss)
      else handle caps ss msg sid)"

text \<open>
  Modelled from the spec: stand-ins for the missing backends, as the specification's design
  notes have them (``fake implementations returning fixed vectors/replies''): an identifier
  longer than every identifier in use, a retriever that finds nothing, a language model
  with one reply.
\<close>

definition longer_id :: "string list \<Rightarrow> string" where
  "longer_id ks = replicate (Suc (foldr max (map length ks) 0)) CHR ''s''"

definition fake :: capabilities where
  "fake = \<lparr> new_id = longer_id, retrieve = (\<lambda>q. Some []),
            language_model = (\<lambda>p. Some ''Hello''), instructions = ''Answer from the passages.'',
            top_k = 4, history_window = 8, required_key = [] \<rparr>"

section \<open>Properties of the widget\<close>

subsection \<open>The text of a serialised string\<close>

text \<open>
  A plain string is written between quotes as it is, and the quoted text of a string
  determines the string: no two strings have the same JSON text, also when more text
  follows.
\<close>

lemma QuoteJSONChar_plain:
  "c \<noteq> CHR 0x22 \<Longrightarrow> c \<noteq> CHR 0x5C \<Longrightarrow> (32 :: nat) \<le> of_char c \<Longrightarrow> QuoteJSONChar c = [c]"
  by (auto simp: QuoteJSONChar_def)

lemma QuoteJSONString_plain:
  "plain s \<Longrightarrow> QuoteJSONString s = CHR 0x22 # s @ [CHR 0x22]"
proof -
  have "(\<forall>c\<in>set s. c \<noteq> CHR 0x22 \<and> c \<noteq> CHR 0x5C \<and> (32 :: nat) \<le> of_char c) \<Longrightarrow>
        concat (map QuoteJSONChar s) = s"
    by (induction s) (simp_all add: QuoteJSONChar_plain)
  then show "plain s \<Longrightarrow> QuoteJSONString s = CHR 0x22 # s @ [CHR 0x22]"
    by (simp add: plain_def QuoteJSONString_def)
qed

lemma index_of_nth:
  "distinct xs \<Longrightarrow> n < length xs \<Longrightarrow> index_of (xs ! n) xs = n"
proof (induction xs arbitrary: n)
  case Nil
  then show ?case by simp
next
  case (Cons x xs)
  then show ?case by (cases n) auto
qed

lemma hex_value_digit: "hex_value (hex_digit n) = n mod 16"
proof -
  have "distinct ''0123456789abcdef''" by simp
  moreover have "n mod 16 < length ''0123456789abcdef''" by simp
  ultimately show ?thesis
    unfolding hex_value_def hex_digit_def by (rule index_of_nth)
qed

lemma control_char_back:
  assumes "of_char c < (32 :: nat)"
  shows "char_of (16 * hex_value (hex_digit (of_char c div 16)) + hex_value (hex_digit (of_char c))) = c"
proof -
  have "(of_char c :: nat) div 16 mod 16 = of_char c div 16" using assms by simp
  then have "16 * hex_value (hex_digit (of_char c div 16)) + hex_value (hex_digit (of_char c))
             = (of_char c :: nat)"
    by (simp add: hex_value_digit)
  then show ?thesis by simp
qed

lemma QuoteJSONChar_short:
  "QuoteJSONChar (CHR 0x08) = [CHR 0x5C, CHR ''b'']"
  "QuoteJSONChar (CHR 0x09) = [CHR 0x5C, CHR ''t'']"
  "QuoteJSONChar (CHR 0x0A) = [CHR 0x5C, CHR ''n'']"
  "QuoteJSONChar (CHR 0x0C) = [CHR 0x5C, CHR ''f'']"
  "QuoteJSONChar (CHR 0x0D) = [CHR 0x5C, CHR ''r'']"
  "QuoteJSONChar (CHR 0x22) = [CHR 0x5C, CHR 0x22]"
  "QuoteJSONChar (CHR 0x5C) = [CHR 0x5C, CHR 0x5C]"
  by (simp_all add: QuoteJSONChar_def)

lemma QuoteJSONChar_other:
  assumes "c \<noteq> CHR 0x08" "c \<noteq> CHR 0x09" "c \<noteq> CHR 0x0A" "c \<noteq> CHR 0x0C" "c \<noteq> CHR 0x0D"
      and "c \<noteq> CHR 0x22" "c \<noteq> CHR 0x5C"
  shows "QuoteJSONChar c =
           (if of_char c < (0x20 :: nat)
            then [CHR 0x5C, CHR ''u'', CHR ''0'', CHR ''0'',
                  hex_digit (of_char c div 16), hex_digit (of_char c)]
            else [c])"
  unfolding QuoteJSONChar_def using assms by (simp only: if_False)

lemma unescape_QuoteJSONChar:
  "unescape (QuoteJSONChar c @ xs) = Some (c, xs)"
proof -
  consider "c = CHR 0x08" | "c = CHR 0x09" | "c = CHR 0x0A" | "c = CHR 0x0C" | "c = CHR 0x0D"
    | "c = CHR 0x22" | "c = CHR 0x5C"
    | "c \<noteq> CHR 0x08" "c \<noteq> CHR 0x09" "c \<noteq> CHR 0x0A" "c \<noteq> CHR 0x0C" "c \<noteq> CHR 0x0D"
      "c \<noteq> CHR 0x22" "c \<noteq> CHR 0x5C"
    by blast
  then show ?thesis
  proof cases
    case 8
    show ?thesis
    proof (cases "of_char c < (0x20 :: nat)")
      case True
      with QuoteJSONChar_other[OF 8] control_char_back[of c] show ?thesis by simp
    next
      case False
      with QuoteJSONChar_other[OF 8] 8 show ?thesis by simp
    qed
  qed (simp_all add: QuoteJSONChar_short)
qed

lemma QuoteJSONChar_prefix_code:
  assumes e: "QuoteJSONChar a @ xs = QuoteJSONChar b @ ys"
  shows "a = b \<and> xs = ys"
proof -
  have "Some (a, xs) = unescape (QuoteJSONChar a @ xs)"
    by (simp only: unescape_QuoteJSONChar)
  also have "\<dots> = unescape (QuoteJSONChar b @ ys)" by (simp only: e)
  also have "\<dots> = Some (b, ys)" by (rule unescape_QuoteJSONChar)
  finally show ?thesis by simp
qed

lemma QuoteJSONChar_no_quote:
  "QuoteJSONChar c @ xs \<noteq> CHR 0x22 # ys"
proof
  assume e: "QuoteJSONChar c @ xs = CHR 0x22 # ys"
  have "Some (c, xs) = unescape (QuoteJSONChar c @ xs)"
    by (simp only: unescape_QuoteJSONChar)
  also have "\<dots> = unescape (CHR 0x22 # ys)" by (simp only: e)
  also have "\<dots> = Some (CHR 0x22, ys)" by simp
  finally have c: "c = CHR 0x22" by simp
  from e show False unfolding c QuoteJSONChar_short by simp
qed

lemma escaped_until_quote:
  "concat (map QuoteJSONChar s) @ CHR 0x22 # xs = concat (map QuoteJSONChar t) @ CHR 0x22 # ys
   \<Longrightarrow> s = t \<and> xs = ys"
proof (induction s arbitrary: t)
  case Nil
  show ?case
  proof (cases t)
    case Nil
    with Nil.prems show ?thesis by simp
  next
    case (Cons b t')
    from Nil.prems have "QuoteJSONChar b @ (concat (map QuoteJSONChar t') @ CHR 0x22 # ys) = CHR 0x22 # xs"
      unfolding Cons by simp
    with QuoteJSONChar_no_quote show ?thesis by blast
  qed
next
  case (Cons a s)
  show ?case
  proof (cases t)
    case Nil
    from Cons.prems have "QuoteJSONChar a @ (concat (map QuoteJSONChar s) @ CHR 0x22 # xs) = CHR 0x22 # ys"
      unfolding Nil by simp
    with QuoteJSONChar_no_quote show ?thesis by blast
  next
    case (Cons b t')
    from Cons.prems
    have "QuoteJSONChar a @ (concat (map QuoteJSONChar s) @ CHR 0x22 # xs) =
          QuoteJSONChar b @ (concat (map QuoteJSONChar t') @ CHR 0x22 # ys)"
      unfolding Cons by simp
    from QuoteJSONChar_prefix_code[OF this]
    have ab: "a = b" and r: "concat (map QuoteJSONChar s) @ CHR 0x22 # xs =
                      concat (map QuoteJSONChar t') @ CHR 0x22 # ys"
      by blast+
    from Cons.IH[OF r] ab Cons show ?thesis by blast
  qed
qed

lemma QuoteJSONString_inj:
  assumes "QuoteJSONString s @ xs = QuoteJSONString t @ ys"
  shows "s = t \<and> xs = ys"
proof -
  from assms have "concat (map QuoteJSONChar s) @ CHR 0x22 # xs =
                   concat (map QuoteJSONChar t) @ CHR 0x22 # ys"
    by (simp add: QuoteJSONString_def)
  then show ?thesis by (rule escaped_until_quote)
qed

subsection \<open>Blank input\<close>

lemma dropWhile_rev_nil: "dropWhile P (rev (dropWhile P s)) = [] \<longleftrightarrow> (\<forall>c\<in>set s. P c)"
proof (cases "dropWhile P s")
  case Nil
  then have "\<forall>c\<in>set s. P c" by simp
  then show ?thesis by (auto dest: set_dropWhileD)
next
  case (Cons a as)
  then have "\<not> P a" using hd_dropWhile[of P s] by auto
  moreover have "a \<in> set s" using Cons set_dropWhileD[of a P s] by auto
  moreover have "a \<in> set (rev (dropWhile P s))" using Cons by simp
  ultimately show ?thesis by (metis dropWhile_eq_Nil_conv)
qed

lemma trim_blank: "trim s = [] \<longleftrightarrow> (\<forall>c\<in>set s. js_whitespace c)"
  unfolding trim_def using dropWhile_rev_nil[of js_whitespace s] by simp

text \<open>
  C9. When the text box is empty or holds white space only, \<^verbatim>\<open>send\<close> makes no request
  and leaves the whole state as it was: the conversation, the stored session id (the
  variable and \<^verbatim>\<open>localStorage\<close>), the text box, the button and the focus.
\<close>

theorem send_blank: 
  assumes "\<forall>c\<in>set (textBox_value st). js_whitespace c"
  shows "send cfg net st = (st, [])"
  using assms trim_blank[of "textBox_value st"]
  by (simp add: send_def send_start_def or_else_def)

theorem send_blank_witness:
  "send (CFG \<lparr> EMPIRELABS_CHAT_API = None, EMPIRELABS_CHAT_KEY = None \<rparr>)
        (\<lambda>r. Rejected ''Failed to fetch'')
        ((widget_load ''Hi'' Map.empty)\<lparr> textBox_value := [CHR 0x20, CHR 0x09] \<rparr>)
     = ((widget_load ''Hi'' Map.empty)\<lparr> textBox_value := [CHR 0x20, CHR 0x09] \<rparr>, [])"
proof -
  have h: "\<forall>c\<in>set (textBox_value ((widget_load ''Hi'' Map.empty)\<lparr> textBox_value := [CHR 0x20, CHR 0x09] \<rparr>)).
      js_whitespace c"
    by (simp add: js_whitespace_def)
  from send_blank[OF h] show ?thesis .
qed

subsection \<open>The request\<close>

lemma send_start_some:
  "trim (textBox_value st) = msg \<Longrightarrow> msg \<noteq> [] \<Longrightarrow>
   send_start cfg st = (append ''You'' msg (st\<lparr> textBox_value := [], sendBtn_disabled := True \<rparr>),
               Some (chat_request cfg st msg))"
  by (auto simp: send_start_def or_else_def Let_def)

lemma trim_hello: "trim '' hello '' = ''hello''"
  by (simp add: trim_def js_whitespace_def)

lemma serialize_defined:
  "v \<noteq> Undefined \<Longrightarrow> \<exists>t. SerializeJSONProperty v = Some t"
  by (cases v) simp_all

lemma stringify_chat_body:
  \<open>JSON_stringify (Obj [(''message'', Str msg), (''session_id'', v)]) =
   Some (''{"message":'' @ QuoteJSONString msg @
         (case SerializeJSONProperty v of None \<Rightarrow> [] | Some t \<Rightarrow> '',"session_id":'' @ t) @ ''}'')\<close>
  by (cases "SerializeJSONProperty v")
     (simp_all add: JSON_stringify_def QuoteJSONString_plain plain_def)

lemma settle_without_session_id:
  "session_id (send_settle st (Response 200 (Json (Obj [(''reply'', Str ''Hello'')])))) = Undefined"
  by (simp add: send_settle_def try_block_def ok_def append_def)

text \<open>
  C1 as it is written fails once a 2xx response has come without a \<^verbatim>\<open>session_id\<close>: the
  widget stores \<^verbatim>\<open>undefined\<close> as its session id, and the body of the next request has a
  \<^verbatim>\<open>message\<close> and no \<^verbatim>\<open>session_id\<close>.
\<close>

theorem send_posts_once_counterexample:
  \<open>map body (snd (send (CFG \<lparr> EMPIRELABS_CHAT_API = None, EMPIRELABS_CHAT_KEY = None \<rparr>)
                     (\<lambda>r. Rejected ''Failed to fetch'')
                     ((send_settle (widget_load ''Hi'' Map.empty)
                         (Response 200 (Json (Obj [(''reply'', Str ''Hello'')]))))
                      \<lparr> textBox_value := ''next'' \<rparr>)))
     = [Some ''{"message":"next"}'']\<close>
proof -
  let ?st = "(send_settle (widget_load ''Hi'' Map.empty)
                 (Response 200 (Json (Obj [(''reply'', Str ''Hello'')]))))\<lparr> textBox_value := ''next'' \<rparr>"
  let ?cfg = "CFG \<lparr> EMPIRELABS_CHAT_API = None, EMPIRELABS_CHAT_KEY = None \<rparr>"
  have a: "trim (textBox_value ?st) = ''next''" by (simp add: trim_def js_whitespace_def)
  have b: "''next'' \<noteq> []" by simp
  have s: "session_id ?st = Undefined" by (simp add: settle_without_session_id)
  have "snd (send ?cfg (\<lambda>r. Rejected ''Failed to fetch'') ?st) = [chat_request ?cfg ?st ''next'']"
    by (simp add: send_def send_start_some[OF a b])
  moreover have \<open>body (chat_request ?cfg ?st ''next'') = Some ''{"message":"next"}''\<close>
    by (simp only: chat_request_def request.simps stringify_chat_body s)
       (simp add: QuoteJSONString_plain plain_def)
  ultimately show ?thesis by simp
qed

text \<open>
  C1, amended. When the trimmed text \<open>msg\<close> of the text box is not empty, \<^verbatim>\<open>send\<close> makes
  exactly one request: a POST to \<^verbatim>\<open>apiBase + "/api/chat"\<close>, with the content type of JSON,
  and with an \<^verbatim>\<open>x-api-key\<close> header exactly when \<^verbatim>\<open>CFG.apiKey\<close> is not empty, the
  header's value being that key. Its body is the JSON text of an object whose
  \<^verbatim>\<open>message\<close> is \<open>msg\<close> and whose \<^verbatim>\<open>session_id\<close> is the stored session id; the
  \<^verbatim>\<open>session_id\<close> is left out when the stored session id is \<^verbatim>\<open>undefined\<close>. For a stored
  string \<open>sid\<close> the body is \<^verbatim>\<open>{"message":msg,"session_id":sid}\<close> with the two strings
  quoted as JSON, which for plain strings is that text with the strings between quotes.
\<close>

theorem send_posts_once:
  assumes "trim (textBox_value st) = msg" and "msg \<noteq> []"
  shows \<open>\<exists>r. snd (send cfg net st) = [r]
           \<and> url r = apiBase cfg @ ''/api/chat''
           \<and> http_method r = ''POST''
           \<and> map_of (headers r) ''Content-Type'' = Some ''application/json''
           \<and> (''x-api-key'' \<in> fst ` set (headers r) \<longleftrightarrow> apiKey cfg \<noteq> [])
           \<and> (apiKey cfg \<noteq> [] \<longrightarrow> map_of (headers r) ''x-api-key'' = Some (apiKey cfg))
           \<and> (session_id st = Undefined \<longrightarrow>
                 body r = Some (''{"message":'' @ QuoteJSONString msg @ ''}''))
           \<and> (\<forall>sid. session_id st = Str sid \<longrightarrow>
                 body r = Some (''{"message":'' @ QuoteJSONString msg @
                                '',"session_id":'' @ QuoteJSONString sid @ ''}''))
           \<and> (\<forall>sid. session_id st = Str sid \<and> plain msg \<and> plain sid \<longrightarrow>
                 body r = Some (''{"message":"'' @ msg @ ''","session_id":"'' @ sid @ ''"}''))
           \<and> (session_id st \<noteq> Undefined \<longrightarrow>
                 (\<exists>t. SerializeJSONProperty (session_id st) = Some t
                    \<and> body r = Some (''{"message":'' @ QuoteJSONString msg @
                                     '',"session_id":'' @ t @ ''}'')))\<close>
proof -
  let ?r = "chat_request cfg st msg"
  have r: "snd (send cfg net st) = [?r]"
    by (simp add: send_def send_start_some[OF assms])
  have u: "url ?r = apiBase cfg @ ''/api/chat''" and m: "http_method ?r = ''POST''"
    by (simp_all add: chat_request_def)
  have h: "map_of (headers ?r) ''Content-Type'' = Some ''application/json''"
    "''x-api-key'' \<in> fst ` set (headers ?r) \<longleftrightarrow> apiKey cfg \<noteq> []"
    "apiKey cfg \<noteq> [] \<longrightarrow> map_of (headers ?r) ''x-api-key'' = Some (apiKey cfg)"
    by (simp_all add: chat_request_def Object_assign_def)
  have b: \<open>body ?r = Some (''{"message":'' @ QuoteJSONString msg @
         (case SerializeJSONProperty (session_id st) of None \<Rightarrow> []
          | Some t \<Rightarrow> '',"session_id":'' @ t) @ ''}'')\<close>
    by (simp only: chat_request_def request.simps stringify_chat_body)
  have b1: \<open>session_id st = Undefined \<longrightarrow>
                 body ?r = Some (''{"message":'' @ QuoteJSONString msg @ ''}'')\<close>
    using b by simp
  have b2: \<open>\<forall>sid. session_id st = Str sid \<longrightarrow>
                 body ?r = Some (''{"message":'' @ QuoteJSONString msg @
                                '',"session_id":'' @ QuoteJSONString sid @ ''}'')\<close>
    using b by simp
  have b3: \<open>\<forall>sid. session_id st = Str sid \<and> plain msg \<and> plain sid \<longrightarrow>
                 body ?r = Some (''{"message":"'' @ msg @ ''","session_id":"'' @ sid @ ''"}'')\<close>
    using b by (simp add: QuoteJSONString_plain)
  have b4: \<open>session_id st \<noteq> Undefined \<longrightarrow>
                 (\<exists>t. SerializeJSONProperty (session_id st) = Some t
                    \<and> body ?r = Some (''{"message":'' @ QuoteJSONString msg @
                                     '',"session_id":'' @ t @ ''}''))\<close>
    using b serialize_defined[of "session_id st"] by auto
  from r u m h b1 b2 b3 b4 show ?thesis by blast
qed


theorem send_posts_once_witness:
  \<open>\<exists>r. snd (send (CFG \<lparr> EMPIRELABS_CHAT_API = None, EMPIRELABS_CHAT_KEY = Some ''k1'' \<rparr>)
                  (\<lambda>r. Rejected ''Failed to fetch'')
                  ((widget_load ''Hi'' Map.empty)\<lparr> textBox_value := '' hello '' \<rparr>)) = [r]
         \<and> url r = ''http://127.0.0.1:8787/api/chat''
         \<and> http_method r = ''POST''
         \<and> body r = Some ''{"message":"hello","session_id":""}''
         \<and> headers r = [(''Content-Type'', ''application/json''), (''x-api-key'', ''k1'')]\<close>
proof -
  let ?st = "(widget_load ''Hi'' Map.empty)\<lparr> textBox_value := '' hello '' \<rparr>"
  let ?cfg = "CFG \<lparr> EMPIRELABS_CHAT_API = None, EMPIRELABS_CHAT_KEY = Some ''k1'' \<rparr>"
  let ?net = "\<lambda>r::request. Rejected ''Failed to fetch''"
  have a: "trim (textBox_value ?st) = ''hello''" by (simp add: trim_hello)
  have b: "''hello'' \<noteq> []" by simp
  have c: "session_id ?st = Str []"
    by (simp add: widget_load_def append_def or_else_def storage_key_def)
  have p: "plain ''hello''" "plain []" by (simp_all add: plain_def)
  have d: "apiBase ?cfg = ''http://127.0.0.1:8787''" "apiKey ?cfg = ''k1''"
    by (simp_all add: CFG_def or_else_def default_api_def strip_trailing_slash_def)
  have hd: "headers (chat_request ?cfg ?st ''hello'') =
              [(''Content-Type'', ''application/json''), (''x-api-key'', ''k1'')]"
    by (simp add: chat_request_def Object_assign_def d)
  from send_posts_once[OF a b, of ?cfg ?net] obtain r where
    r: "snd (send ?cfg ?net ?st) = [r]" and u: "url r = apiBase ?cfg @ ''/api/chat''"
    and m: "http_method r = ''POST''"
    and bd: \<open>\<forall>sid. session_id ?st = Str sid \<and> plain ''hello'' \<and> plain sid \<longrightarrow>
                 body r = Some (''{"message":"'' @ ''hello'' @ ''","session_id":"'' @ sid @ ''"}'')\<close>
    by blast
  from bd c p have bl: \<open>body r = Some ''{"message":"hello","session_id":""}''\<close> by simp
  have "snd (send ?cfg ?net ?st) = [chat_request ?cfg ?st ''hello'']"
    by (simp add: send_def send_start_some[OF a b])
  with r have "r = chat_request ?cfg ?st ''hello''" by simp
  with hd have h: "headers r = [(''Content-Type'', ''application/json''), (''x-api-key'', ''k1'')]"
    by simp
  from r u m bl h d show ?thesis by simp
qed

subsection \<open>The address of the service\<close>

lemma strip_trailing_slash_ends:
  assumes "suffix ''/'' (strip_trailing_slash b)"
  shows "suffix ''//'' b"
proof (cases "b \<noteq> [] \<and> last b = CHR ''/''")
  case True
  then have b: "b = butlast b @ ''/''" by (metis append_butlast_last_id)
  from True assms have "suffix ''/'' (butlast b)" by (simp add: strip_trailing_slash_def)
  then obtain y where "butlast b = y @ ''/''" by (auto simp: suffix_def)
  with b have "b = y @ ''//''" by simp
  then show ?thesis by (metis suffixI)
next
  case False
  with assms have "suffix ''/'' b" by (auto simp: strip_trailing_slash_def)
  then obtain y where "b = y @ ''/''" by (auto simp: suffix_def)
  with False show ?thesis by auto
qed

lemma join_double_slash:
  "suffix ''//api/chat'' (x @ ''/api/chat'') \<longleftrightarrow> suffix ''/'' x"
proof -
  have "suffix (''/'' @ ''/api/chat'') (x @ ''/api/chat'') \<longleftrightarrow> suffix ''/'' x"
    by (rule same_suffix_suffix)
  then show ?thesis by simp
qed

text \<open>
  C8 as it is written fails for a configured base that ends in two slashes: one slash is
  stripped, the other stays, and the request goes to a URL with a double slash at the join.
\<close>

theorem api_base_join_counterexample:
  "url (chat_request
         (CFG \<lparr> EMPIRELABS_CHAT_API = Some ''http://127.0.0.1:8787//'', EMPIRELABS_CHAT_KEY = None \<rparr>)
         (widget_load ''Hi'' Map.empty) ''hello'')
     = ''http://127.0.0.1:8787//api/chat''"
  by (simp add: chat_request_def CFG_def or_else_def strip_trailing_slash_def)

text \<open>
  C8, amended. The launch script binds the server to host \<^verbatim>\<open>127.0.0.1\<close> and port
  \<^verbatim>\<open>8787\<close> (its \<^verbatim>\<open>HOST\<close> and \<^verbatim>\<open>PORT\<close> and the arguments of the server), and when the
  page does not set \<^verbatim>\<open>window.EMPIRELABS_CHAT_API\<close> (or sets it empty) the widget's API base is
  \<^verbatim>\<open>http://127.0.0.1:8787\<close>, the same host and port. A configured base that is not empty
  has one trailing slash stripped, if it has one; and when the configured base does not
  end in two slashes, the request URL has no double slash where \<^verbatim>\<open>/api/chat\<close> is
  joined on.
\<close>

theorem api_base_join:
  "server_bind run_script = Some (''127.0.0.1'', ''8787'')
   \<and> map_of (env_assignments run_script) ''HOST'' = Some ''127.0.0.1''
   \<and> map_of (env_assignments run_script) ''PORT'' = Some ''8787''
   \<and> (EMPIRELABS_CHAT_API w = None \<or> EMPIRELABS_CHAT_API w = Some [] \<longrightarrow>
        apiBase (CFG w) = ''http://'' @ ''127.0.0.1'' @ '':'' @ ''8787'')
   \<and> (\<forall>b. EMPIRELABS_CHAT_API w = Some b \<and> b \<noteq> [] \<longrightarrow>
          apiBase (CFG w) = (if last b = CHR ''/'' then butlast b else b)
          \<and> (\<not> suffix ''//'' b \<longrightarrow> \<not> suffix ''//api/chat'' (url (chat_request (CFG w) st msg))))"
proof -
  have bind: "server_bind run_script = Some (''127.0.0.1'', ''8787'')"
    by (simp add: server_bind_def run_script_def uvicorn_args_def)
  have host: "map_of (env_assignments run_script) ''HOST'' = Some ''127.0.0.1''"
    and port: "map_of (env_assignments run_script) ''PORT'' = Some ''8787''"
    by (simp_all add: run_script_def)
  have dflt: "apiBase (CFG w) = ''http://'' @ ''127.0.0.1'' @ '':'' @ ''8787''"
    if "EMPIRELABS_CHAT_API w = None \<or> EMPIRELABS_CHAT_API w = Some []"
    using that by (auto simp: CFG_def or_else_def default_api_def strip_trailing_slash_def)
  have conf: "apiBase (CFG w) = (if last b = CHR ''/'' then butlast b else b)
          \<and> (\<not> suffix ''//'' b \<longrightarrow> \<not> suffix ''//api/chat'' (url (chat_request (CFG w) st msg)))"
    if b: "EMPIRELABS_CHAT_API w = Some b \<and> b \<noteq> []" for b
  proof -
    from b have a: "apiBase (CFG w) = strip_trailing_slash b"
      by (simp add: CFG_def or_else_def)
    have u: "url (chat_request (CFG w) st msg) = strip_trailing_slash b @ ''/api/chat''"
      by (simp add: chat_request_def a)
    from b a have "apiBase (CFG w) = (if last b = CHR ''/'' then butlast b else b)"
      by (simp add: strip_trailing_slash_def)
    moreover have "\<not> suffix ''//api/chat'' (url (chat_request (CFG w) st msg))" if "\<not> suffix ''//'' b"
      using that strip_trailing_slash_ends[of b] join_double_slash[of "strip_trailing_slash b"] u
      by auto
    ultimately show ?thesis by blast
  qed
  from bind host port dflt conf show ?thesis by blast
qed

theorem api_base_join_witness:
  "apiBase (CFG \<lparr> EMPIRELABS_CHAT_API = None, EMPIRELABS_CHAT_KEY = None \<rparr>) = ''http://127.0.0.1:8787''
   \<and> apiBase (CFG \<lparr> EMPIRELABS_CHAT_API = Some ''https://chat.example/'', EMPIRELABS_CHAT_KEY = None \<rparr>)
       = ''https://chat.example''
   \<and> \<not> suffix ''//api/chat''
         (url (chat_request (CFG \<lparr> EMPIRELABS_CHAT_API = Some ''https://chat.example/'', EMPIRELABS_CHAT_KEY = None \<rparr>)
                (widget_load ''Hi'' Map.empty) ''hello''))"
proof -
  let ?w0 = "\<lparr> EMPIRELABS_CHAT_API = None, EMPIRELABS_CHAT_KEY = None \<rparr>"
  let ?w1 = "\<lparr> EMPIRELABS_CHAT_API = Some ''https://chat.example/'', EMPIRELABS_CHAT_KEY = None \<rparr>"
  from api_base_join[of ?w0]
  have 1: "apiBase (CFG ?w0) = ''http://127.0.0.1:8787''" by auto
  have ns: "\<not> suffix ''//'' ''https://chat.example/''" by (simp add: suffix_def)
  from api_base_join[of ?w1 "widget_load ''Hi'' Map.empty" "''hello''"] ns
  have 2: "apiBase (CFG ?w1) = ''https://chat.example''"
    and 3: "\<not> suffix ''//api/chat'' (url (chat_request (CFG ?w1) (widget_load ''Hi'' Map.empty) ''hello''))"
    by auto
  from 1 2 3 show ?thesis by blast
qed

lemma load_empty:
  "widget_load g Map.empty =
     \<lparr> textBox_value = [], textBox_focused = False, sendBtn_disabled = False,
       body_children = [\<lparr> className = ''empire-msg empire-bot'', textContent = ''Bot: '' @ g \<rparr>],
       session_id = Str [], localStorage = Map.empty \<rparr>"
  by (simp add: widget_load_def append_def or_else_def)

subsection \<open>How \<^verbatim>\<open>send\<close> ends\<close>

lemma try_block_failed:
  "failed outcome \<Longrightarrow> \<exists>m. try_block st outcome = (st, Some m)"
  by (auto simp: failed_def try_block_def split: fetch_outcome.splits body_result.splits sum.splits)

lemma send_settle_thrown:
  "try_block st outcome = (st1, Some m) \<Longrightarrow>
   send_settle st outcome = (append ''Error'' m st1)\<lparr> sendBtn_disabled := False, textBox_focused := True \<rparr>"
  by (simp add: send_settle_def)

lemma send_settle_finally:
  "\<not> sendBtn_disabled (send_settle st outcome) \<and> textBox_focused (send_settle st outcome)"
  by (simp add: send_settle_def Let_def split: prod.splits)

lemma send_cases:
  "snd (send cfg net st) = [r] \<Longrightarrow>
     trim (textBox_value st) \<noteq> [] \<and> r = chat_request cfg st (trim (textBox_value st)) \<and>
     fst (send cfg net st) =
       send_settle (append ''You'' (trim (textBox_value st))
                      (st\<lparr> textBox_value := [], sendBtn_disabled := True \<rparr>)) (net r)"
  by (auto simp: send_def send_start_def or_else_def Let_def split: if_splits)

text \<open>
  C10. Every run of \<^verbatim>\<open>send\<close> that makes a request ends with the send button enabled
  and the focus on the text box, however the request ends; and when the request fails
  (\<^verbatim>\<open>fetch\<close> throws, the status is not 2xx or the body is not JSON), the conversation
  gains the user's message and then one message \<^verbatim>\<open>Error: ...\<close>. Nothing is thrown out
  of \<^verbatim>\<open>send\<close>: the \<^verbatim>\<open>catch\<close> block takes every error of the \<^verbatim>\<open>try\<close> block.
\<close>

theorem send_always_settles:
  assumes "snd (send cfg net st) = [r]"
  shows "\<not> sendBtn_disabled (fst (send cfg net st))
       \<and> textBox_focused (fst (send cfg net st))
       \<and> (failed (net r) \<longrightarrow>
            (\<exists>m. body_children (fst (send cfg net st)) =
                   body_children st @
                   [\<lparr> className = ''empire-msg empire-user'',
                      textContent = ''You: '' @ trim (textBox_value st) \<rparr>,
                    \<lparr> className = ''empire-msg empire-bot'', textContent = ''Error: '' @ m \<rparr>]))"
proof -
  let ?st1 = "append ''You'' (trim (textBox_value st))
                      (st\<lparr> textBox_value := [], sendBtn_disabled := True \<rparr>)"
  from send_cases[OF assms] have eq: "fst (send cfg net st) = send_settle ?st1 (net r)"
    by simp
  have "\<exists>m. body_children (send_settle ?st1 (net r)) =
                   body_children st @
                   [\<lparr> className = ''empire-msg empire-user'',
                      textContent = ''You: '' @ trim (textBox_value st) \<rparr>,
                    \<lparr> className = ''empire-msg empire-bot'', textContent = ''Error: '' @ m \<rparr>]"
    if f: "failed (net r)"
  proof -
    from try_block_failed[OF f, of ?st1] obtain m where "try_block ?st1 (net r) = (?st1, Some m)" ..
    from send_settle_thrown[OF this] show ?thesis
      by (simp add: append_def)
  qed
  with eq send_settle_finally[of ?st1 "net r"] show ?thesis by simp
qed

theorem send_always_settles_witness:
  "\<not> sendBtn_disabled (fst (send (CFG \<lparr> EMPIRELABS_CHAT_API = None, EMPIRELABS_CHAT_KEY = None \<rparr>)
        (\<lambda>r. Rejected ''Failed to fetch'')
        ((widget_load ''Hi'' Map.empty)\<lparr> textBox_value := '' hello '' \<rparr>)))
   \<and> textBox_focused (fst (send (CFG \<lparr> EMPIRELABS_CHAT_API = None, EMPIRELABS_CHAT_KEY = None \<rparr>)
        (\<lambda>r. Rejected ''Failed to fetch'')
        ((widget_load ''Hi'' Map.empty)\<lparr> textBox_value := '' hello '' \<rparr>)))
   \<and> map textContent (body_children (fst (send (CFG \<lparr> EMPIRELABS_CHAT_API = None, EMPIRELABS_CHAT_KEY = None \<rparr>)
        (\<lambda>r. Rejected ''Failed to fetch'')
        ((widget_load ''Hi'' Map.empty)\<lparr> textBox_value := '' hello '' \<rparr>))))
     = [''Bot: Hi'', ''You: hello'', ''Error: Failed to fetch'']"
proof -
  let ?cfg = "CFG \<lparr> EMPIRELABS_CHAT_API = None, EMPIRELABS_CHAT_KEY = None \<rparr>"
  let ?net = "\<lambda>r::request. Rejected ''Failed to fetch''"
  let ?st = "(widget_load ''Hi'' Map.empty)\<lparr> textBox_value := '' hello '' \<rparr>"
  have t: "trim (textBox_value ?st) = ''hello''" by (simp add: trim_hello)
  have h: "snd (send ?cfg ?net ?st) = [chat_request ?cfg ?st ''hello'']"
    by (simp add: send_def send_start_some[OF t])
  have f: "failed (?net (chat_request ?cfg ?st ''hello''))" by (simp add: failed_def)
  have b: "map textContent (body_children (fst (send ?cfg ?net ?st)))
     = [''Bot: Hi'', ''You: hello'', ''Error: Failed to fetch'']"
  proof -
    from send_cases[OF h] t have "fst (send ?cfg ?net ?st) =
        send_settle (append ''You'' ''hello'' (?st\<lparr> textBox_value := [], sendBtn_disabled := True \<rparr>))
          (Rejected ''Failed to fetch'')"
      by simp
    then show ?thesis
      by (simp add: send_settle_def try_block_def append_def widget_load_def)
  qed
  from send_always_settles[OF h] b show ?thesis by simp
qed

subsection \<open>Responses that are not 2xx\<close>

text \<open>
  C3 as it is written fails on a response that is not 2xx and whose body is not JSON, such
  as the plain-text page of a server error: the body has no \<^verbatim>\<open>detail\<close>, and the message
  shown is that of the parse error, not \<^verbatim>\<open>Request failed\<close>.
\<close>

theorem non_2xx_counterexample:
  "\<not> ok 500
   \<and> map textContent (body_children (send_settle (widget_load ''Hi'' Map.empty)
        (Response 500 (NotJson ''Unexpected token I in JSON at position 0''))))
     = [''Bot: Hi'', ''Error: Unexpected token I in JSON at position 0'']
   \<and> textContent (last (body_children (send_settle (widget_load ''Hi'' Map.empty)
        (Response 500 (NotJson ''Unexpected token I in JSON at position 0'')))))
     \<noteq> ''Error: Request failed''"
  by (simp add: ok_def send_settle_def try_block_def append_def load_empty)

lemma non_2xx_thrown:
  assumes "\<not> ok status"
  shows "\<exists>m. try_block st (Response status b) = (st, Some m)
           \<and> (\<forall>e. b = NotJson e \<longrightarrow> m = e)
           \<and> (\<forall>data e. b = Json data \<and> get_prop data ''detail'' = Inl e \<longrightarrow> m = e)
           \<and> (\<forall>data d. b = Json data \<and> get_prop data ''detail'' = Inr d \<and> \<not> truthy d \<longrightarrow>
                  m = ''Request failed'')
           \<and> (\<forall>data d s. b = Json data \<and> get_prop data ''detail'' = Inr d \<and> truthy d
                  \<and> ToString d = Inr s \<longrightarrow> m = s)
           \<and> (\<forall>data d e. b = Json data \<and> get_prop data ''detail'' = Inr d \<and> truthy d
                  \<and> ToString d = Inl e \<longrightarrow> m = e)"
proof (cases b)
  case (NotJson e)
  then show ?thesis by (simp add: try_block_def)
next
  case (Json data)
  show ?thesis
  proof (cases "get_prop data ''detail''")
    case (Inl e)
    with Json assms show ?thesis by (simp add: try_block_def)
  next
    case (Inr d)
    show ?thesis
    proof (cases "truthy d")
      case False
      with Json Inr assms show ?thesis by (simp add: try_block_def)
    next
      case True
      with Json Inr assms show ?thesis
        by (cases "ToString d") (simp_all add: try_block_def)
    qed
  qed
qed

text \<open>
  C3, amended. For every response whose status is not 2xx, \<^verbatim>\<open>send\<close> adds exactly one
  message \<^verbatim>\<open>Error: m\<close> to the conversation, adds no bot reply, and leaves the stored
  session id (the variable and \<^verbatim>\<open>localStorage\<close>) as it was. When the body is not JSON,
  \<open>m\<close> is the message of the parse error. When the body is a JSON document, \<open>m\<close> is
  \<^verbatim>\<open>Request failed\<close> if its \<^verbatim>\<open>detail\<close> is absent or falsy, and otherwise its \<^verbatim>\<open>detail\<close>
  coerced to a string, or the message of the TypeError when that coercion throws (a
  \<^verbatim>\<open>detail\<close> that is an object with a \<^verbatim>\<open>toString\<close> property of its own, or an array
  holding one). When the body is \<^verbatim>\<open>null\<close>, \<open>m\<close> is the message of the TypeError thrown
  by reading \<^verbatim>\<open>detail\<close>.
\<close>

theorem non_2xx_is_error:
  assumes "\<not> ok status"
  shows "\<exists>m. body_children (send_settle st (Response status b)) =
               body_children st @ [\<lparr> className = ''empire-msg empire-bot'', textContent = ''Error: '' @ m \<rparr>]
           \<and> session_id (send_settle st (Response status b)) = session_id st
           \<and> localStorage (send_settle st (Response status b)) = localStorage st
           \<and> (\<forall>e. b = NotJson e \<longrightarrow> m = e)
           \<and> (\<forall>data e. b = Json data \<and> get_prop data ''detail'' = Inl e \<longrightarrow> m = e)
           \<and> (\<forall>data d. b = Json data \<and> get_prop data ''detail'' = Inr d \<and> \<not> truthy d \<longrightarrow>
                  m = ''Request failed'')
           \<and> (\<forall>data d s. b = Json data \<and> get_prop data ''detail'' = Inr d \<and> truthy d
                  \<and> ToString d = Inr s \<longrightarrow> m = s)
           \<and> (\<forall>data d e. b = Json data \<and> get_prop data ''detail'' = Inr d \<and> truthy d
                  \<and> ToString d = Inl e \<longrightarrow> m = e)
           \<and> (\<forall>data s. b = Json data \<and> get_prop data ''detail'' = Inr (Str s) \<and> s \<noteq> [] \<longrightarrow> m = s)
           \<and> (\<forall>data d. b = Json data \<and> get_prop data ''detail'' = Inr d
                  \<and> d \<in> {Undefined, Null, Bool False, Num ''0'', Str []} \<longrightarrow> m = ''Request failed'')"
proof -
  from non_2xx_thrown[OF assms, of st b] obtain m where
    H: "try_block st (Response status b) = (st, Some m)
           \<and> (\<forall>e. b = NotJson e \<longrightarrow> m = e)
           \<and> (\<forall>data e. b = Json data \<and> get_prop data ''detail'' = Inl e \<longrightarrow> m = e)
           \<and> (\<forall>data d. b = Json data \<and> get_prop data ''detail'' = Inr d \<and> \<not> truthy d \<longrightarrow>
                  m = ''Request failed'')
           \<and> (\<forall>data d s. b = Json data \<and> get_prop data ''detail'' = Inr d \<and> truthy d
                  \<and> ToString d = Inr s \<longrightarrow> m = s)
           \<and> (\<forall>data d e. b = Json data \<and> get_prop data ''detail'' = Inr d \<and> truthy d
                  \<and> ToString d = Inl e \<longrightarrow> m = e)" ..
  note t = H[THEN conjunct1]
  note 1 = H[THEN conjunct2, THEN conjunct1]
  note 2 = H[THEN conjunct2, THEN conjunct2, THEN conjunct1]
  note 3 = H[THEN conjunct2, THEN conjunct2, THEN conjunct2, THEN conjunct1]
  note 4 = H[THEN conjunct2, THEN conjunct2, THEN conjunct2, THEN conjunct2, THEN conjunct1]
  note 5 = H[THEN conjunct2, THEN conjunct2, THEN conjunct2, THEN conjunct2, THEN conjunct2]
  from send_settle_thrown[OF t]
  have s: "body_children (send_settle st (Response status b)) =
               body_children st @ [\<lparr> className = ''empire-msg empire-bot'', textContent = ''Error: '' @ m \<rparr>]"
    "session_id (send_settle st (Response status b)) = session_id st"
    "localStorage (send_settle st (Response status b)) = localStorage st"
    by (simp_all add: append_def)
  have 6: "\<forall>data s. b = Json data \<and> get_prop data ''detail'' = Inr (Str s) \<and> s \<noteq> [] \<longrightarrow> m = s"
  proof (intro allI impI)
    fix data s
    assume "b = Json data \<and> get_prop data ''detail'' = Inr (Str s) \<and> s \<noteq> []"
    then have "b = Json data \<and> get_prop data ''detail'' = Inr (Str s) \<and> truthy (Str s)
                 \<and> ToString (Str s) = Inr s"
      by simp
    with 4 show "m = s" by blast
  qed
  have 7: "\<forall>data d. b = Json data \<and> get_prop data ''detail'' = Inr d
                  \<and> d \<in> {Undefined, Null, Bool False, Num ''0'', Str []} \<longrightarrow> m = ''Request failed''"
  proof (intro allI impI)
    fix data d
    assume a: "b = Json data \<and> get_prop data ''detail'' = Inr d
                  \<and> d \<in> {Undefined, Null, Bool False, Num ''0'', Str []}"
    then have "\<not> truthy d" by auto
    with a 3 show "m = ''Request failed''" by blast
  qed
  show ?thesis by (intro exI[of _ m] conjI) (fact s 1 2 3 4 5 6 7)+
qed

theorem non_2xx_is_error_witness:
  "map textContent (body_children (send_settle (widget_load ''Hi'' Map.empty)
        (Response 401 (Json (Obj [(''detail'', Str ''Invalid API key'')])))))
     = [''Bot: Hi'', ''Error: Invalid API key'']
   \<and> map textContent (body_children (send_settle (widget_load ''Hi'' Map.empty)
        (Response 500 (Json (Obj [(''detail'', Str [])])))))
     = [''Bot: Hi'', ''Error: Request failed'']
   \<and> map textContent (body_children (send_settle (widget_load ''Hi'' Map.empty)
        (Response 404 (Json (Obj [])))))
     = [''Bot: Hi'', ''Error: Request failed'']
   \<and> map textContent (body_children (send_settle (widget_load ''Hi'' Map.empty)
        (Response 422 (Json (Obj [(''detail'', Obj [(''toString'', Num ''1'')])])))))
     = [''Bot: Hi'', ''Error: Cannot convert object to primitive value'']
   \<and> session_id (send_settle (widget_load ''Hi'' Map.empty)
        (Response 401 (Json (Obj [(''detail'', Str ''Invalid API key'')])))) = Str []"
proof -
  let ?st = "widget_load ''Hi'' Map.empty"
  have h: "\<not> ok 401" "\<not> ok 500" "\<not> ok 404" "\<not> ok 422" by (simp_all add: ok_def)
  have 1: "map textContent (body_children (send_settle ?st
        (Response 401 (Json (Obj [(''detail'', Str ''Invalid API key'')])))))
     = [''Bot: Hi'', ''Error: Invalid API key'']"
    and 5: "session_id (send_settle ?st
        (Response 401 (Json (Obj [(''detail'', Str ''Invalid API key'')])))) = Str []"
    using non_2xx_is_error[OF h(1), of ?st "Json (Obj [(''detail'', Str ''Invalid API key'')])"]
    by (elim exE conjE, simp add: load_empty)+
  have 2: "map textContent (body_children (send_settle ?st
        (Response 500 (Json (Obj [(''detail'', Str [])])))))
     = [''Bot: Hi'', ''Error: Request failed'']"
    using non_2xx_is_error[OF h(2), of ?st "Json (Obj [(''detail'', Str [])])"]
    by (elim exE conjE) (simp add: load_empty)
  have 3: "map textContent (body_children (send_settle ?st (Response 404 (Json (Obj [])))))
     = [''Bot: Hi'', ''Error: Request failed'']"
    using non_2xx_is_error[OF h(3), of ?st "Json (Obj [])"]
    by (elim exE conjE) (simp add: load_empty)
  have 4: "map textContent (body_children (send_settle ?st
        (Response 422 (Json (Obj [(''detail'', Obj [(''toString'', Num ''1'')])])))))
     = [''Bot: Hi'', ''Error: Cannot convert object to primitive value'']"
    using non_2xx_is_error[OF h(4), of ?st "Json (Obj [(''detail'', Obj [(''toString'', Num ''1'')])])"]
    by (elim exE conjE) (simp add: load_empty)
  from 1 2 3 4 5 show ?thesis by simp
qed

section \<open>Properties of the scripts\<close>

lemma py_path: "win_path [''C:'', ''VaultSentinel'', ''EmpireLabs'', ''ChatBot'', ''.venv'', ''Scripts'', ''python.exe''] = Py"
  by (simp add: Py_def Root_def Join_Path_def win_path_def)

lemma root_path: "win_path [''C:'', ''VaultSentinel'', ''EmpireLabs'', ''ChatBot''] = Root"
  by (simp add: Root_def)

lemma exec_append:
  "exec w s (xs @ ys) =
     (case exec w s xs of (s', Some e) \<Rightarrow> (s', Some e) | (s', None) \<Rightarrow> exec w s' ys)"
  by (induction xs arbitrary: s) (auto split: prod.splits option.splits)

subsection \<open>The embedding model\<close>


subsection \<open>The environment of the server\<close>

lemma run_script_split:
  "run_script = take 14 run_script @
     [SetLocation Root, Native Py uvicorn_args]"
  by (simp add: run_script_def py_path root_path)

lemma run_script_env:
  "env_assignments run_script =
              [(''OLLAMA_BASE_URL'', ''http://127.0.0.1:11434''),
               (''MODEL'', ''qwen2.5:7b-instruct''),
               (''API_KEY'', []),
               (''CORS_ORIGINS'', ''*''),
               (''HOST'', ''127.0.0.1''),
               (''PORT'', ''8787''),
               (''CHAT_TEMP'', ''0.4''),
               (''NUM_CTX'', ''4096''),
               (''RAG_ENABLED'', ''1''),
               (''RAG_DB_PATH'', Join_Path Root ''rag_db''),
               (''RAG_COLLECTION'', ''empirelabs_kb''),
               (''EMBED_MODEL'', ''nomic-embed-text'')]"
  by (simp add: run_script_def Root_def Join_Path_def win_path_def)

lemma run_settings_exec:
  "exec w new_shell (take 14 run_script) =
     (new_shell\<lparr> ErrorActionPreference := ''Stop'', env := env_assignments run_script \<rparr>, None)"
  by (simp add: run_script_def new_shell_def)

lemma launch_exec:
  assumes "can_enter w Root" and "native w Py uvicorn_args = Exit code"
  shows "log (fst (exec w s [SetLocation Root, Native Py uvicorn_args])) =
           log s @ [Ran Py uvicorn_args (env s) code]"
  using assms by simp

text \<open>
  C7. When the launch script reaches the server (its directory can be entered and the
  program starts), the server runs with exactly twelve environment variables assigned by
  the script, each once and all before the server starts: \<^verbatim>\<open>OLLAMA_BASE_URL\<close>,
  \<^verbatim>\<open>MODEL\<close>, \<^verbatim>\<open>API_KEY\<close>, \<^verbatim>\<open>CORS_ORIGINS\<close>, \<^verbatim>\<open>HOST\<close>, \<^verbatim>\<open>PORT\<close>,
  \<^verbatim>\<open>CHAT_TEMP\<close>, \<^verbatim>\<open>NUM_CTX\<close>, \<^verbatim>\<open>RAG_ENABLED\<close>, \<^verbatim>\<open>RAG_DB_PATH\<close>,
  \<^verbatim>\<open>RAG_COLLECTION\<close> and \<^verbatim>\<open>EMBED_MODEL\<close>; the script assigns no other variable.
\<close>

theorem run_script_environment:
  assumes "can_enter w Root" and "native w Py uvicorn_args = Exit code"
  shows "log (fst (run w run_script)) =
           [Ran Py uvicorn_args
              [(''OLLAMA_BASE_URL'', ''http://127.0.0.1:11434''),
               (''MODEL'', ''qwen2.5:7b-instruct''),
               (''API_KEY'', []),
               (''CORS_ORIGINS'', ''*''),
               (''HOST'', ''127.0.0.1''),
               (''PORT'', ''8787''),
               (''CHAT_TEMP'', ''0.4''),
               (''NUM_CTX'', ''4096''),
               (''RAG_ENABLED'', ''1''),
               (''RAG_DB_PATH'', Join_Path Root ''rag_db''),
               (''RAG_COLLECTION'', ''empirelabs_kb''),
               (''EMBED_MODEL'', ''nomic-embed-text'')]
              code]
       \<and> set (map fst (env_assignments run_script)) =
           {''OLLAMA_BASE_URL'', ''MODEL'', ''EMBED_MODEL'', ''API_KEY'', ''CORS_ORIGINS'', ''HOST'',
            ''PORT'', ''CHAT_TEMP'', ''NUM_CTX'', ''RAG_ENABLED'', ''RAG_DB_PATH'', ''RAG_COLLECTION''}
       \<and> distinct (map fst (env_assignments run_script))"
proof -
  have "run w run_script = exec w new_shell (take 14 run_script @ [SetLocation Root, Native Py uvicorn_args])"
    unfolding run_def using run_script_split by simp
  also have "\<dots> = exec w (new_shell\<lparr> ErrorActionPreference := ''Stop'', env := env_assignments run_script \<rparr>)
                      [SetLocation Root, Native Py uvicorn_args]"
    by (simp only: exec_append run_settings_exec prod.case option.case)
  finally have "log (fst (run w run_script)) = [Ran Py uvicorn_args (env_assignments run_script) code]"
    using launch_exec[OF assms] by (simp add: new_shell_def)
  then have 1: "log (fst (run w run_script)) =
           [Ran Py uvicorn_args
              [(''OLLAMA_BASE_URL'', ''http://127.0.0.1:11434''),
               (''MODEL'', ''qwen2.5:7b-instruct''),
               (''API_KEY'', []),
               (''CORS_ORIGINS'', ''*''),
               (''HOST'', ''127.0.0.1''),
               (''PORT'', ''8787''),
               (''CHAT_TEMP'', ''0.4''),
               (''NUM_CTX'', ''4096''),
               (''RAG_ENABLED'', ''1''),
               (''RAG_DB_PATH'', Join_Path Root ''rag_db''),
               (''RAG_COLLECTION'', ''empirelabs_kb''),
               (''EMBED_MODEL'', ''nomic-embed-text'')]
              code]"
    by (simp only: run_script_env)
  have 2: "set (map fst (env_assignments run_script)) =
           {''OLLAMA_BASE_URL'', ''MODEL'', ''EMBED_MODEL'', ''API_KEY'', ''CORS_ORIGINS'', ''HOST'',
            ''PORT'', ''CHAT_TEMP'', ''NUM_CTX'', ''RAG_ENABLED'', ''RAG_DB_PATH'', ''RAG_COLLECTION''}"
    by (auto simp: run_script_def)
  have 3: "distinct (map fst (env_assignments run_script))"
    by (simp add: run_script_def)
  from 1 2 3 show ?thesis by blast
qed

theorem run_script_environment_witness:
  "map (\<lambda>e. case e of Ran exe args e code \<Rightarrow> map fst e | Wrote t \<Rightarrow> [])
      (log (fst (run all_well run_script))) =
     [[''OLLAMA_BASE_URL'', ''MODEL'', ''API_KEY'', ''CORS_ORIGINS'', ''HOST'', ''PORT'',
       ''CHAT_TEMP'', ''NUM_CTX'', ''RAG_ENABLED'', ''RAG_DB_PATH'', ''RAG_COLLECTION'',
       ''EMBED_MODEL'']]"
proof -
  have a: "can_enter all_well Root" by (simp add: all_well_def)
  have b: "native all_well Py uvicorn_args = Exit 0" by (simp add: all_well_def)
  from run_script_environment[OF a b] show ?thesis by simp
qed

subsection \<open>The refresh of the knowledge base\<close>

lemma refresh_script_split:
  "refresh_script = take 8 refresh_script @
     [ WriteHost (''1) Scraping site -> kb'' @ [CHR 0x5C, CHR 0x5C] @ ''scraped ...''),
       Native Py [''site_scrape.py''],
       WriteHost ''2) Ingesting kb -> rag_db ...'',
       Native Py [''rag_ingest.py''],
       WriteHost ([CHR 0xE2, CHR 0x9C, CHR 0x85] @ '' KB refresh complete.'') ]"
  by (simp add: refresh_script_def)

lemma refresh_settings_log:
  "log (fst (exec w new_shell (take 8 refresh_script))) = []
   \<and> (snd (exec w new_shell (take 8 refresh_script)) = None \<longrightarrow>
        ErrorActionPreference (fst (exec w new_shell (take 8 refresh_script))) = ''Stop'')"
  by (simp add: refresh_script_def new_shell_def)

lemma programs_run_append:
  "programs_run (xs @ ys) = programs_run xs @ programs_run ys"
  by (induction xs rule: programs_run.induct) simp_all

lemma refresh_settings_state:
  "exec w new_shell (take 8 refresh_script) = (s, r) \<Longrightarrow>
     log s = [] \<and> (r = None \<longrightarrow> ErrorActionPreference s = ''Stop'')"
  using refresh_settings_log[of w] by simp

lemma refresh_steps_log:
  "log s = [] \<Longrightarrow> ErrorActionPreference s = ''Stop'' \<Longrightarrow>
   prefix (map fst (programs_run (log (fst (exec w s
     [ WriteHost t1, Native Py [''site_scrape.py''], WriteHost t2, Native Py [''rag_ingest.py''],
       WriteHost t3 ])))))
     [[''site_scrape.py''], [''rag_ingest.py'']]"
  by (simp add: programs_run_append split: native_outcome.splits)

text \<open>
  The order of the two steps is fixed: whatever the world, the programs a run of the
  refresh script starts are none, or \<^verbatim>\<open>site_scrape.py\<close> alone, or \<^verbatim>\<open>site_scrape.py\<close>
  and then \<^verbatim>\<open>rag_ingest.py\<close>.
\<close>

lemma refresh_order:
  "prefix (map fst (programs_run (log (fst (run w refresh_script)))))
     [[''site_scrape.py''], [''rag_ingest.py'']]"
proof (cases "exec w new_shell (take 8 refresh_script)")
  case (Pair s r)
  note l = refresh_settings_state[OF Pair]
  show ?thesis
  proof (cases r)
    case None
    with Pair have "run w refresh_script =
        exec w s [ WriteHost (''1) Scraping site -> kb'' @ [CHR 0x5C, CHR 0x5C] @ ''scraped ...''),
       Native Py [''site_scrape.py''],
       WriteHost ''2) Ingesting kb -> rag_db ...'',
       Native Py [''rag_ingest.py''],
       WriteHost ([CHR 0xE2, CHR 0x9C, CHR 0x85] @ '' KB refresh complete.'') ]"
      unfolding run_def by (subst refresh_script_split) (simp only: exec_append prod.case option.case)
    with refresh_steps_log[of s] l None show ?thesis by simp
  next
    case (Some e)
    with Pair have "run w refresh_script = (s, Some e)"
      unfolding run_def by (subst refresh_script_split) (simp only: exec_append prod.case option.case)
    with l show ?thesis by simp
  qed
qed

text \<open>
  C5. The steps run in the order the claim gives, but a failing first step does not stop
  the script. \<^verbatim>\<open>$ErrorActionPreference = "Stop"\<close> does not apply to the exit code of a
  native program: when \<^verbatim>\<open>site_scrape.py\<close> exits with 1, the script goes on to run
  \<^verbatim>\<open>rag_ingest.py\<close>, ends without an error and reports that the refresh is complete.
\<close>

theorem refresh_goes_on_after_failed_scrape:
  "snd (run scrape_fails refresh_script) = None
   \<and> programs_run (log (fst (run scrape_fails refresh_script))) =
       [([''site_scrape.py''], 1), ([''rag_ingest.py''], 0)]
   \<and> last (log (fst (run scrape_fails refresh_script))) =
       Wrote ([CHR 0xE2, CHR 0x9C, CHR 0x85] @ '' KB refresh complete.'')"
  by (simp add: run_def refresh_script_def scrape_fails_def new_shell_def)

text \<open>
  Were \<^verbatim>\<open>$PSNativeCommandUseErrorActionPreference\<close> on, the same failure would end the
  script before the ingestion.
\<close>

lemma refresh_stops_when_exit_codes_are_errors:
  "snd (run (scrape_fails\<lparr> PSNativeCommandUseErrorActionPreference := True \<rparr>) refresh_script) \<noteq> None
   \<and> programs_run (log (fst (run (scrape_fails\<lparr> PSNativeCommandUseErrorActionPreference := True \<rparr>)
                                  refresh_script))) =
       [([''site_scrape.py''], 1)]"
  by (simp add: run_def refresh_script_def scrape_fails_def new_shell_def)

end
